theory Spec2Isabelle
  imports Complex_Main
begin

section \<open>Python values, exceptions and method calls\<close>

text \<open>
  The orchestrator of \<^verbatim>\<open>pymuscle/muscle.py\<close> never looks inside the values it moves
  between its collaborators, apart from one \<^verbatim>\<open>isinstance\<close> test on the input of
  \<^verbatim>\<open>step\<close>.  The values that flow through it are kept in one dynamically typed
  universe: a float, an int, a numpy integer scalar (\<^verbatim>\<open>np.int64\<close>, a single value that
  is an instance of neither \<^verbatim>\<open>float\<close> nor \<^verbatim>\<open>int\<close>), an array, or \<^verbatim>\<open>None\<close>.  The
  floats that only pass through the orchestrator are kept as reals; an array is the list
  of its elements.
\<close>

datatype pyval = PyFloat real | PyInt int | PyNpInt64 int | PyArray "pyval list" | PyNone

text \<open>
  Exceptions are values.  \<open>AssertionError\<close> is what a failed \<^verbatim>\<open>assert\<close> raises,
  \<open>ValueError\<close> what \<^verbatim>\<open>np.full\<close> raises on a negative shape, \<open>ZeroDivisionError\<close>
  what float division by zero raises; \<open>Raised name\<close> stands for any other exception a
  collaborator may raise.
\<close>

datatype exn = AssertionError | ValueError | ZeroDivisionError | TypeError | Raised string

fun isinstance_float :: "pyval \<Rightarrow> bool" where
  "isinstance_float (PyFloat x) = True"
| "isinstance_float v = False"

fun isinstance_int :: "pyval \<Rightarrow> bool" where
  "isinstance_int (PyInt i) = True"
| "isinstance_int v = False"

text \<open>\<^verbatim>\<open>np.full(shape, fill_value)\<close> for an integer shape: a negative shape raises.\<close>

definition np_full :: "int \<Rightarrow> pyval \<Rightarrow> exn + pyval" where
  "np_full shape fill_value =
     (if shape < 0 then Inl ValueError
      else Inr (PyArray (replicate (nat shape) fill_value)))"

text \<open>
  A method that may mutate the object it is called on and may raise: it takes the
  object's state and returns the raised exception or the returned value, together with
  the state the object is left in.
\<close>

type_synonym ('s, 'a) py = "'s \<Rightarrow> (exn + 'a) \<times> 's"

definition return_py :: "'a \<Rightarrow> ('s, 'a) py" where
  "return_py x = (\<lambda>s. (Inr x, s))"

text \<open>
  Sequencing of two statements: an exception of the first one skips the second and
  leaves the method with the state reached so far.
\<close>

definition bind_py :: "('s, 'a) py \<Rightarrow> ('a \<Rightarrow> ('s, 'b) py) \<Rightarrow> ('s, 'b) py" where
  "bind_py f g =
     (\<lambda>s. case f s of
            (Inl e, s') \<Rightarrow> (Inl e, s')
          | (Inr x, s') \<Rightarrow> g x s')"

text \<open>The same for code without an object to mutate (the constructors).\<close>

definition bind_exn :: "exn + 'a \<Rightarrow> ('a \<Rightarrow> exn + 'b) \<Rightarrow> exn + 'b" where
  "bind_exn r g = (case r of Inl e \<Rightarrow> Inl e | Inr x \<Rightarrow> g x)"


section \<open>The collaborators\<close>

text \<open>
  The pool and fibre classes are not part of \<^verbatim>\<open>muscle.py\<close>; the orchestrator uses
  them through four names only: the attribute \<^verbatim>\<open>motor_unit_count\<close> of both, the
  method \<^verbatim>\<open>step\<close> of both, and the attribute \<^verbatim>\<open>current_forces\<close> of the fibres.
  They are parameters of the model: \<open>'ps\<close> and \<open>'fs\<close> are the states of a pool object
  and of a fibres object (two objects that share no state), and a \<open>models\<close> record
  holds what the two classes do.  A
  \<^verbatim>\<open>step\<close> receives the list of its positional arguments, so that what the
  orchestrator passes is visible.  Reading an attribute of a collaborator is taken to be
  free of side effects.
\<close>

record ('ps, 'fs) models =
  pool_motor_unit_count :: "'ps \<Rightarrow> int"
  pool_step :: "pyval list \<Rightarrow> ('ps, pyval) py"
  fibers_motor_unit_count :: "'fs \<Rightarrow> int"
  fibers_current_forces :: "'fs \<Rightarrow> pyval"
  fibers_step :: "pyval list \<Rightarrow> ('fs, pyval) py"


section \<open>Muscle\<close>

text \<open>The two attributes \<^verbatim>\<open>_pool\<close> and \<^verbatim>\<open>_fibers\<close> of a \<^verbatim>\<open>Muscle\<close>.\<close>

record ('ps, 'fs) muscle =
  self_pool :: 'ps
  self_fibers :: 'fs

text \<open>
  \<^verbatim>\<open>Muscle.__init__\<close>: the \<^verbatim>\<open>assert\<close> compares the two counts, then both objects are
  stored.
\<close>

definition Muscle_init ::
  "('ps, 'fs) models \<Rightarrow> 'ps \<Rightarrow> 'fs \<Rightarrow> exn + ('ps, 'fs) muscle" where
  "Muscle_init C motor_neuron_pool_model muscle_fibers_model =
     (if pool_motor_unit_count C motor_neuron_pool_model
           = fibers_motor_unit_count C muscle_fibers_model
      then Inr \<lparr>self_pool = motor_neuron_pool_model, self_fibers = muscle_fibers_model\<rparr>
      else Inl AssertionError)"

text \<open>The two properties.  Each is a method of the muscle like any other.\<close>

definition Muscle_motor_unit_count ::
  "('ps, 'fs) models \<Rightarrow> (('ps, 'fs, 'z) muscle_scheme, int) py" where
  "Muscle_motor_unit_count C = (\<lambda>self. return_py (pool_motor_unit_count C (self_pool self)) self)"

definition Muscle_current_forces ::
  "('ps, 'fs) models \<Rightarrow> (('ps, 'fs, 'z) muscle_scheme, pyval) py" where
  "Muscle_current_forces C = (\<lambda>self. return_py (fibers_current_forces C (self_fibers self)) self)"

text \<open>
  A call of a collaborator's \<^verbatim>\<open>step\<close> from inside the muscle: the collaborator's new
  state replaces the old one in the muscle, whether the call returned or raised.
\<close>

definition call_pool_step ::
  "('ps, 'fs) models \<Rightarrow> pyval list \<Rightarrow> (('ps, 'fs, 'z) muscle_scheme, pyval) py" where
  "call_pool_step C args =
     (\<lambda>self. case pool_step C args (self_pool self) of (r, p) \<Rightarrow> (r, self\<lparr>self_pool := p\<rparr>))"

definition call_fibers_step ::
  "('ps, 'fs) models \<Rightarrow> pyval list \<Rightarrow> (('ps, 'fs, 'z) muscle_scheme, pyval) py" where
  "call_fibers_step C args =
     (\<lambda>self. case fibers_step C args (self_fibers self) of (r, f) \<Rightarrow> (r, self\<lparr>self_fibers := f\<rparr>))"

text \<open>
  The first statement of \<^verbatim>\<open>Muscle.step\<close>: a float or an int is expanded with
  \<^verbatim>\<open>np.full\<close> to the pool's current count; anything else is left as it is.
\<close>

definition expand_input ::
  "('ps, 'fs) models \<Rightarrow> pyval \<Rightarrow> (('ps, 'fs, 'z) muscle_scheme, pyval) py" where
  "expand_input C motor_pool_input =
     (if isinstance_float motor_pool_input \<or> isinstance_int motor_pool_input
      then (\<lambda>self. (np_full (pool_motor_unit_count C (self_pool self)) motor_pool_input, self))
      else return_py motor_pool_input)"

text \<open>
  \<^verbatim>\<open>Muscle.step\<close>: after the expansion, the pool's \<^verbatim>\<open>step\<close> is called with the input
  and the step size, and the fibres' \<^verbatim>\<open>step\<close> with the pool's output alone; what the
  fibres return is returned.
\<close>

definition Muscle_step ::
  "('ps, 'fs) models \<Rightarrow> pyval \<Rightarrow> pyval \<Rightarrow> (('ps, 'fs, 'z) muscle_scheme, pyval) py" where
  "Muscle_step C motor_pool_input step_size =
     bind_py (expand_input C motor_pool_input)
       (\<lambda>motor_pool_input.
          bind_py (call_pool_step C [motor_pool_input, step_size])
            (\<lambda>motor_pool_output. call_fibers_step C [motor_pool_output]))"


text \<open>
  The calls a client can make on a constructed muscle, and the state a muscle is in after
  a sequence of them (whatever each call returned or raised).
\<close>

datatype call = Step pyval pyval | MotorUnitCount | CurrentForces

definition perform ::
  "('ps, 'fs) models \<Rightarrow> call \<Rightarrow> ('ps, 'fs, 'z) muscle_scheme \<Rightarrow> ('ps, 'fs, 'z) muscle_scheme" where
  "perform C c self =
     (case c of
        Step motor_pool_input step_size \<Rightarrow> snd (Muscle_step C motor_pool_input step_size self)
      | MotorUnitCount \<Rightarrow> snd (Muscle_motor_unit_count C self)
      | CurrentForces \<Rightarrow> snd (Muscle_current_forces C self))"

fun perform_all ::
  "('ps, 'fs) models \<Rightarrow> call list \<Rightarrow> ('ps, 'fs, 'z) muscle_scheme \<Rightarrow> ('ps, 'fs, 'z) muscle_scheme" where
  "perform_all C [] self = self"
| "perform_all C (c # cs) self = perform_all C cs (perform C c self)"


section \<open>The presets\<close>

text \<open>
  The keyword arguments the presets pass to the constructors of the concrete pool and
  fibre classes, and those constructors, which are parameters like the classes' methods.
\<close>

record model_kwargs =
  kw_motor_unit_count :: int
  kw_apply_fatigue :: bool

record pool_kwargs = model_kwargs +
  kw_pre_calc_firing_rates :: bool

record pymuscle_fibers_kwargs = model_kwargs +
  kw_force_conversion_factor :: real

record ('ps, 'fs) constructors =
  PotvinFuglevand2017MotorNeuronPool :: "pool_kwargs \<Rightarrow> exn + 'ps"
  PotvinFuglevand2017MuscleFibers :: "model_kwargs \<Rightarrow> exn + 'fs"
  PyMuscleFibers :: "pymuscle_fibers_kwargs \<Rightarrow> exn + 'fs"

text \<open>An optional argument: \<open>None\<close> when the caller leaves it out.\<close>

definition arg_default :: "'a \<Rightarrow> 'a option \<Rightarrow> 'a" where
  "arg_default d a = (case a of None \<Rightarrow> d | Some x \<Rightarrow> x)"

text \<open>\<^verbatim>\<open>PotvinFuglevandMuscle.__init__\<close>.\<close>

definition PotvinFuglevandMuscle_init ::
  "('ps, 'fs) constructors \<Rightarrow> ('ps, 'fs) models \<Rightarrow> int \<Rightarrow> bool option \<Rightarrow> bool option \<Rightarrow>
     bool option \<Rightarrow> exn + ('ps, 'fs) muscle" where
  "PotvinFuglevandMuscle_init K C motor_unit_count apply_central_fatigue
      apply_peripheral_fatigue pre_calc_firing_rates =
     (let apply_central_fatigue = arg_default True apply_central_fatigue;
          apply_peripheral_fatigue = arg_default True apply_peripheral_fatigue;
          pre_calc_firing_rates = arg_default False pre_calc_firing_rates
      in bind_exn
           (PotvinFuglevand2017MotorNeuronPool K
              \<lparr>kw_motor_unit_count = motor_unit_count,
               kw_apply_fatigue = apply_central_fatigue,
               kw_pre_calc_firing_rates = pre_calc_firing_rates\<rparr>)
           (\<lambda>pool. bind_exn
              (PotvinFuglevand2017MuscleFibers K
                 \<lparr>kw_motor_unit_count = motor_unit_count,
                  kw_apply_fatigue = apply_peripheral_fatigue\<rparr>)
              (\<lambda>fibers. Muscle_init C pool fibers)))"

text \<open>
  \<^verbatim>\<open>int(x)\<close> of a float truncates toward zero; \<^verbatim>\<open>a / b\<close> raises on a zero divisor.
\<close>

definition py_int :: "real \<Rightarrow> int" where
  "py_int x = (if 0 \<le> x then \<lfloor>x\<rfloor> else \<lceil>x\<rceil>)"

definition py_truediv :: "real \<Rightarrow> real \<Rightarrow> exn + real" where
  "py_truediv a b = (if b = 0 then Inl ZeroDivisionError else Inr (a / b))"

text \<open>
  The local variable \<^verbatim>\<open>motor_unit_count\<close> of \<^verbatim>\<open>StandardMuscle.__init__\<close>:
  \<^verbatim>\<open>int(max_force / (force_conversion_factor * 17.66))\<close>.
\<close>

definition StandardMuscle_motor_unit_count :: "real \<Rightarrow> real \<Rightarrow> exn + int" where
  "StandardMuscle_motor_unit_count max_force force_conversion_factor =
     bind_exn (py_truediv max_force (force_conversion_factor * 17.66))
       (\<lambda>q. Inr (py_int q))"

text \<open>A \<^verbatim>\<open>StandardMuscle\<close> is a \<^verbatim>\<open>Muscle\<close> with two more attributes.\<close>

record ('ps, 'fs) standard_muscle = "('ps, 'fs) muscle" +
  self_max_force :: real
  self_force_conversion_factor :: real

text \<open>
  \<^verbatim>\<open>StandardMuscle.__init__\<close>, with its defaults: the count is derived, the pool and
  the fibres are constructed in this order, and \<^verbatim>\<open>Muscle.__init__\<close> does the rest.
\<close>

definition StandardMuscle_init ::
  "('ps, 'fs) constructors \<Rightarrow> ('ps, 'fs) models \<Rightarrow> real option \<Rightarrow> real option \<Rightarrow>
     bool option \<Rightarrow> bool option \<Rightarrow> bool option \<Rightarrow> exn + ('ps, 'fs) standard_muscle" where
  "StandardMuscle_init K C max_force force_conversion_factor apply_central_fatigue
      apply_peripheral_fatigue pre_calc_firing_rates =
     (let max_force = arg_default 60.0 max_force;
          force_conversion_factor = arg_default 0.028 force_conversion_factor;
          apply_central_fatigue = arg_default False apply_central_fatigue;
          apply_peripheral_fatigue = arg_default True apply_peripheral_fatigue;
          pre_calc_firing_rates = arg_default False pre_calc_firing_rates
      in bind_exn (StandardMuscle_motor_unit_count max_force force_conversion_factor)
           (\<lambda>motor_unit_count. bind_exn
              (PotvinFuglevand2017MotorNeuronPool K
                 \<lparr>kw_motor_unit_count = motor_unit_count,
                  kw_apply_fatigue = apply_central_fatigue,
                  kw_pre_calc_firing_rates = pre_calc_firing_rates\<rparr>)
              (\<lambda>pool. bind_exn
                 (PyMuscleFibers K
                    \<lparr>kw_motor_unit_count = motor_unit_count,
                     kw_apply_fatigue = apply_peripheral_fatigue,
                     kw_force_conversion_factor = force_conversion_factor\<rparr>)
                 (\<lambda>fibers. bind_exn (Muscle_init C pool fibers)
                    (\<lambda>self. Inr (muscle.extend self
                       (standard_muscle.fields max_force force_conversion_factor)))))))"



section \<open>Recording collaborators\<close>

text \<open>
  Two concrete collaborators on which the theorems below are run.  Each remembers the
  arguments of every \<^verbatim>\<open>step\<close> call it receives and the flags it was constructed with.
  The pool wants an array of its own length and a step size, and answers with the doubled
  array; the fibres want one array, and answer with the sum of its elements, which they
  also keep as \<^verbatim>\<open>current_forces\<close>.
\<close>

record spy_pool =
  sp_motor_unit_count :: int
  sp_apply_fatigue :: bool
  sp_pre_calc_firing_rates :: bool
  sp_calls :: "pyval list list"

record spy_fibers =
  sf_motor_unit_count :: int
  sf_apply_fatigue :: bool
  sf_current_forces :: pyval
  sf_calls :: "pyval list list"

fun twice :: "pyval \<Rightarrow> pyval" where
  "twice (PyFloat x) = PyFloat (2 * x)"
| "twice (PyInt i) = PyInt (2 * i)"
| "twice v = v"

fun number :: "pyval \<Rightarrow> real" where
  "number (PyFloat x) = x"
| "number (PyInt i) = real_of_int i"
| "number v = 0"

definition spy_pool_step :: "pyval list \<Rightarrow> (spy_pool, pyval) py" where
  "spy_pool_step args s =
     (let s' = s\<lparr>sp_calls := sp_calls s @ [args]\<rparr>
      in case args of
           [PyArray xs, step_size] \<Rightarrow>
             if int (length xs) = sp_motor_unit_count s
             then (Inr (PyArray (map twice xs)), s')
             else (Inl (Raised ''shape mismatch''), s')
         | _ \<Rightarrow> (Inl TypeError, s'))"

text \<open>
  A pool that does the same but neither looks at the step size nor records its calls.
\<close>

definition deaf_pool_step :: "pyval list \<Rightarrow> (spy_pool, pyval) py" where
  "deaf_pool_step args s =
     (case args of
        [PyArray xs, step_size] \<Rightarrow> (Inr (PyArray (map twice xs)), s)
      | _ \<Rightarrow> (Inl TypeError, s))"

definition spy_fibers_step :: "pyval list \<Rightarrow> (spy_fibers, pyval) py" where
  "spy_fibers_step args s =
     (let s' = s\<lparr>sf_calls := sf_calls s @ [args]\<rparr>
      in case args of
           [PyArray xs] \<Rightarrow>
             if int (length xs) = sf_motor_unit_count s
             then (let total = PyFloat (sum_list (map number xs))
                   in (Inr total, s'\<lparr>sf_current_forces := total\<rparr>))
             else (Inl (Raised ''shape mismatch''), s')
         | _ \<Rightarrow> (Inl TypeError, s'))"

definition spy_models :: "(spy_pool, spy_fibers) models" where
  "spy_models =
     \<lparr>pool_motor_unit_count = sp_motor_unit_count,
      pool_step = spy_pool_step,
      fibers_motor_unit_count = sf_motor_unit_count,
      fibers_current_forces = sf_current_forces,
      fibers_step = spy_fibers_step\<rparr>"

definition spy_constructors :: "(spy_pool, spy_fibers) constructors" where
  "spy_constructors =
     \<lparr>PotvinFuglevand2017MotorNeuronPool =
        (\<lambda>kw. Inr \<lparr>sp_motor_unit_count = kw_motor_unit_count kw,
                   sp_apply_fatigue = kw_apply_fatigue kw,
                   sp_pre_calc_firing_rates = kw_pre_calc_firing_rates kw,
                   sp_calls = []\<rparr>),
      PotvinFuglevand2017MuscleFibers =
        (\<lambda>kw. Inr \<lparr>sf_motor_unit_count = kw_motor_unit_count kw,
                   sf_apply_fatigue = kw_apply_fatigue kw,
                   sf_current_forces = PyNone,
                   sf_calls = []\<rparr>),
      PyMuscleFibers =
        (\<lambda>kw. Inr \<lparr>sf_motor_unit_count = kw_motor_unit_count kw,
                   sf_apply_fatigue = kw_apply_fatigue kw,
                   sf_current_forces = PyNone,
                   sf_calls = []\<rparr>)\<rparr>"

text \<open>A fresh pool and fresh fibres of \<open>n\<close> motor units, and the muscle made of them.\<close>

definition new_spy_pool :: "int \<Rightarrow> spy_pool" where
  "new_spy_pool n =
     \<lparr>sp_motor_unit_count = n, sp_apply_fatigue = True,
      sp_pre_calc_firing_rates = False, sp_calls = []\<rparr>"

definition new_spy_fibers :: "int \<Rightarrow> spy_fibers" where
  "new_spy_fibers n =
     \<lparr>sf_motor_unit_count = n, sf_apply_fatigue = True,
      sf_current_forces = PyNone, sf_calls = []\<rparr>"

definition spy_muscle :: "int \<Rightarrow> (spy_pool, spy_fibers) muscle" where
  "spy_muscle n = \<lparr>self_pool = new_spy_pool n, self_fibers = new_spy_fibers n\<rparr>"


section \<open>What the collaborators promise\<close>

text \<open>
  Modelled from the spec: the collaborator contract says that a collaborator exposes a
  \<^verbatim>\<open>motor_unit_count\<close> attribute that is stable for the object's lifetime.  The pool
  and fibre classes are not in \<^verbatim>\<open>muscle.py\<close>, so the promise is a predicate on the
  parameter: no \<^verbatim>\<open>step\<close> of either collaborator changes that collaborator's count.
\<close>

definition counts_stable :: "('ps, 'fs) models \<Rightarrow> bool" where
  "counts_stable C \<longleftrightarrow>
     (\<forall>args s. pool_motor_unit_count C (snd (pool_step C args s)) = pool_motor_unit_count C s)
     \<and> (\<forall>args s. fibers_motor_unit_count C (snd (fibers_step C args s))
                    = fibers_motor_unit_count C s)"

text \<open>
  Modelled from the spec: the force output is "returned to the caller and also cached as
  \<^verbatim>\<open>current_forces\<close> on the fiber model".  The fibre classes are not in
  \<^verbatim>\<open>muscle.py\<close>, so the promise is a predicate on the parameter: after a \<^verbatim>\<open>step\<close>
  of the fibres that returns, their \<^verbatim>\<open>current_forces\<close> is the returned value.
\<close>

definition fibers_cache_forces :: "('ps, 'fs) models \<Rightarrow> bool" where
  "fibers_cache_forces C \<longleftrightarrow>
     (\<forall>args s force s'. fibers_step C args s = (Inr force, s')
        \<longrightarrow> fibers_current_forces C s' = force)"


section \<open>Basic facts\<close>

lemma expand_input_scalar:
  "isinstance_float v \<or> isinstance_int v \<Longrightarrow> 0 \<le> pool_motor_unit_count C (self_pool self) \<Longrightarrow>
   expand_input C v self =
     (Inr (PyArray (replicate (nat (pool_motor_unit_count C (self_pool self))) v)), self)"
  by (simp add: expand_input_def np_full_def)

lemma expand_input_negative:
  "isinstance_float v \<or> isinstance_int v \<Longrightarrow> pool_motor_unit_count C (self_pool self) < 0 \<Longrightarrow>
   expand_input C v self = (Inl ValueError, self)"
  by (simp add: expand_input_def np_full_def)

lemma expand_input_other:
  "\<not> isinstance_float v \<Longrightarrow> \<not> isinstance_int v \<Longrightarrow> expand_input C v self = (Inr v, self)"
  by (simp add: expand_input_def return_py_def)

lemma expand_input_state: "snd (expand_input C v self) = self"
  by (simp add: expand_input_def return_py_def)

text \<open>The three statements of \<^verbatim>\<open>Muscle.step\<close> with the sequencing written out.\<close>

lemma Muscle_step_unfold:
  "Muscle_step C i dt self =
     (case expand_input C i self of
        (Inl e, s) \<Rightarrow> (Inl e, self)
      | (Inr x, s) \<Rightarrow>
          (case pool_step C [x, dt] (self_pool self) of
             (Inl e, p) \<Rightarrow> (Inl e, self\<lparr>self_pool := p\<rparr>)
           | (Inr out, p) \<Rightarrow>
               (case fibers_step C [out] (self_fibers self) of
                  (r, f) \<Rightarrow> (r, self\<lparr>self_pool := p, self_fibers := f\<rparr>))))"
  using expand_input_state [of C i self]
  by (auto simp: Muscle_step_def bind_py_def call_pool_step_def call_fibers_step_def
      split: prod.splits sum.splits)

lemma py_int_nonneg: "0 \<le> x \<Longrightarrow> py_int x = \<lfloor>x\<rfloor>"
  by (simp add: py_int_def)

text \<open>
  Below zero \<^verbatim>\<open>int\<close> and the floor differ: \<^verbatim>\<open>int(-0.4 / (0.028 * 17.66))\<close> is 0, the
  floor is -1.
\<close>

lemma py_int_below_zero:
  "py_int (- 0.4 / (0.028 * 17.66)) = 0 \<and> \<lfloor>- 0.4 / (0.028 * 17.66 :: real)\<rfloor> = - 1"
  by (simp add: py_int_def ceiling_eq_iff floor_eq_iff)

lemma floor_500: "\<lfloor>500 / (0.028 * 17.66 :: real)\<rfloor> = 1011"
  by (simp add: floor_eq_iff)

text \<open>
  The two quotients used as examples below are far from an integer, so a quotient that is
  off by the rounding of float arithmetic (or by as much as a tenth) is cut to the same
  count.
\<close>

lemma py_int_near_500:
  assumes "\<bar>q - 500 / (0.028 * 17.66)\<bar> \<le> 0.1"
  shows "py_int q = 1011"
proof -
  have "(1011.1::real) < 500 / (0.028 * 17.66)" and "500 / (0.028 * 17.66) < (1011.9::real)"
    by simp_all
  with assms have "1011 \<le> q" and "q < 1012"
    by linarith+
  then show ?thesis
    by (simp add: py_int_def floor_eq_iff)
qed

lemma py_int_near_04:
  assumes "\<bar>q - 0.4 / (0.028 * 17.66)\<bar> \<le> 0.1"
  shows "py_int q = 0"
proof -
  have "(0.1::real) < 0.4 / (0.028 * 17.66)" and "0.4 / (0.028 * 17.66) < (0.9::real)"
    by simp_all
  with assms have "0 \<le> q" and "q < 1"
    by linarith+
  then show ?thesis
    by (simp add: py_int_def floor_eq_iff)
qed

lemmas spy_defs =
  spy_models_def spy_constructors_def spy_muscle_def new_spy_pool_def new_spy_fibers_def
  spy_pool_step_def spy_fibers_step_def Let_def

lemma replicate3: "replicate (nat 3) x = [x, x, x]" "replicate 3 x = [x, x, x]"
  by (simp_all add: numeral_3_eq_3)


text \<open>
  A \<^verbatim>\<open>step\<close> of the muscle leaves each collaborator as it was or as one of that
  collaborator's own \<^verbatim>\<open>step\<close> calls left it; with stable counts, no call on the
  muscle changes either count.
\<close>

lemma Muscle_step_pool_state:
  "self_pool (snd (Muscle_step C i dt self)) = self_pool self
   \<or> (\<exists>args. self_pool (snd (Muscle_step C i dt self)) = snd (pool_step C args (self_pool self)))"
  by (auto simp: Muscle_step_unfold split: prod.splits sum.splits) (metis snd_conv)+

lemma Muscle_step_fibers_state:
  "self_fibers (snd (Muscle_step C i dt self)) = self_fibers self
   \<or> (\<exists>args. self_fibers (snd (Muscle_step C i dt self))
                = snd (fibers_step C args (self_fibers self)))"
  by (auto simp: Muscle_step_unfold split: prod.splits sum.splits) (metis snd_conv)+

lemma perform_counts:
  assumes "counts_stable C"
  shows "pool_motor_unit_count C (self_pool (perform C c self))
           = pool_motor_unit_count C (self_pool self)
         \<and> fibers_motor_unit_count C (self_fibers (perform C c self))
           = fibers_motor_unit_count C (self_fibers self)"
proof (cases c)
  case (Step i dt)
  show ?thesis
    using assms Muscle_step_pool_state [of C i dt self] Muscle_step_fibers_state [of C i dt self]
    by (auto simp: Step perform_def counts_stable_def)
next
  case MotorUnitCount
  then show ?thesis by (simp add: perform_def Muscle_motor_unit_count_def return_py_def)
next
  case CurrentForces
  then show ?thesis by (simp add: perform_def Muscle_current_forces_def return_py_def)
qed

lemma perform_all_counts:
  assumes "counts_stable C"
  shows "pool_motor_unit_count C (self_pool (perform_all C cs self))
           = pool_motor_unit_count C (self_pool self)
         \<and> fibers_motor_unit_count C (self_fibers (perform_all C cs self))
           = fibers_motor_unit_count C (self_fibers self)"
proof (induction cs arbitrary: self)
  case Nil
  show ?case by simp
next
  case (Cons c cs)
  show ?case
    using Cons.IH [of "perform C c self"] perform_counts [OF assms, of c self] by simp
qed

lemma spy_counts_stable: "counts_stable spy_models"
  by (auto simp: counts_stable_def spy_defs split: list.splits pyval.splits)

lemma spy_fibers_cache_forces: "fibers_cache_forces spy_models"
  by (auto simp: fibers_cache_forces_def spy_defs split: list.splits pyval.splits if_splits)

lemma count_60: "StandardMuscle_motor_unit_count 60 0.028 = Inr 121"
  by (simp add: StandardMuscle_motor_unit_count_def py_truediv_def bind_exn_def py_int_def
      floor_eq_iff)


section \<open>Construction\<close>

text \<open>
  C1.  Constructing a \<^verbatim>\<open>Muscle\<close> fails, with the error of the \<^verbatim>\<open>assert\<close> (the spec's
  ConfigurationError), exactly when the pool's count differs from the fibres' count, and
  succeeds, storing both objects, exactly when the counts are equal.  No later operation
  checks again: \<^verbatim>\<open>step\<close> and the two accessors never read the fibres' count, so they
  do the same whatever the fibres report as their count.
\<close>

theorem Muscle_init_checks_counts_once:
  "(Muscle_init C p f = Inl AssertionError
      \<longleftrightarrow> pool_motor_unit_count C p \<noteq> fibers_motor_unit_count C f)
   \<and> (Muscle_init C p f = Inr \<lparr>self_pool = p, self_fibers = f\<rparr>
      \<longleftrightarrow> pool_motor_unit_count C p = fibers_motor_unit_count C f)
   \<and> Muscle_step (C\<lparr>fibers_motor_unit_count := g\<rparr>) i dt self = Muscle_step C i dt self
   \<and> Muscle_motor_unit_count (C\<lparr>fibers_motor_unit_count := g\<rparr>) self
     = Muscle_motor_unit_count C self
   \<and> Muscle_current_forces (C\<lparr>fibers_motor_unit_count := g\<rparr>) self
     = Muscle_current_forces C self"
  by (simp add: Muscle_init_def Muscle_step_def expand_input_def call_pool_step_def
      call_fibers_step_def Muscle_motor_unit_count_def Muscle_current_forces_def)

text \<open>
  On the recording collaborators: counts 3 and 2 are refused, counts 3 and 3 accepted,
  and a step runs the same when the fibres are made to report 2.
\<close>

theorem Muscle_init_checks_counts_once_witness:
  "Muscle_init spy_models (new_spy_pool 3) (new_spy_fibers 2) = Inl AssertionError
   \<and> Muscle_init spy_models (new_spy_pool 3) (new_spy_fibers 3) = Inr (spy_muscle 3)
   \<and> Muscle_step (spy_models\<lparr>fibers_motor_unit_count := \<lambda>s. 2\<rparr>) (PyFloat 0.5) (PyFloat 0.02)
        (spy_muscle 3)
      = Muscle_step spy_models (PyFloat 0.5) (PyFloat 0.02) (spy_muscle 3)"
proof -
  have a: "pool_motor_unit_count spy_models (new_spy_pool 3)
             \<noteq> fibers_motor_unit_count spy_models (new_spy_fibers 2)"
    by (simp add: spy_defs)
  have b: "pool_motor_unit_count spy_models (new_spy_pool 3)
             = fibers_motor_unit_count spy_models (new_spy_fibers 3)"
    by (simp add: spy_defs)
  note fails = Muscle_init_checks_counts_once
      [of spy_models "new_spy_pool 3" "new_spy_fibers 2", THEN conjunct1, THEN iffD2, OF a]
  note rest = Muscle_init_checks_counts_once
      [of spy_models "new_spy_pool 3" "new_spy_fibers 3" "\<lambda>s. 2" "PyFloat 0.5" "PyFloat 0.02"
        "spy_muscle 3", THEN conjunct2]
  note succeeds = rest [THEN conjunct1, THEN iffD2, OF b]
  note same = rest [THEN conjunct2, THEN conjunct1]
  show ?thesis
    using fails succeeds same by (simp only: spy_muscle_def simp_thms)
qed


section \<open>Stepping\<close>

text \<open>
  C2, as stated, fails: the step size reaches the pool's \<^verbatim>\<open>step\<close> only.  On the
  recording collaborators, after \<^verbatim>\<open>step(0.5, 0.02)\<close> on a muscle of three units, the
  pool has seen one call with the expanded input and \<^verbatim>\<open>0.02\<close>, and the fibres have
  seen one call whose only argument is the pool's output: \<^verbatim>\<open>0.02\<close> is not among the
  arguments the fibres received.
\<close>

theorem Muscle_step_fibers_arguments:
  "sp_calls (self_pool (snd (Muscle_step spy_models (PyFloat 0.5) (PyFloat 0.02) (spy_muscle 3))))
     = [[PyArray [PyFloat 0.5, PyFloat 0.5, PyFloat 0.5], PyFloat 0.02]]
   \<and> sf_calls (self_fibers (snd (Muscle_step spy_models (PyFloat 0.5) (PyFloat 0.02)
        (spy_muscle 3))))
     = [[PyArray [PyFloat 1, PyFloat 1, PyFloat 1]]]
   \<and> PyFloat 0.02 \<notin> set (concat (sf_calls (self_fibers
        (snd (Muscle_step spy_models (PyFloat 0.5) (PyFloat 0.02) (spy_muscle 3))))))"
  by (simp add: Muscle_step_unfold expand_input_def np_full_def spy_defs replicate3)

text \<open>
  C2, amended.  The step size is passed as it is to the pool's \<^verbatim>\<open>step\<close>, as its second
  argument, and to nothing else: the fibres' \<^verbatim>\<open>step\<close> is called with the pool's output
  alone, and the orchestrator makes no use of the step size of its own, so two step sizes
  that the pool's \<^verbatim>\<open>step\<close> answers alike give the same step of the muscle.
\<close>

theorem Muscle_step_step_size:
  assumes "expand_input C motor_pool_input self = (Inr expanded, self)"
  shows "Muscle_step C motor_pool_input step_size self
           = (case pool_step C [expanded, step_size] (self_pool self) of
                (Inl e, p) \<Rightarrow> (Inl e, self\<lparr>self_pool := p\<rparr>)
              | (Inr activation, p) \<Rightarrow>
                  (case fibers_step C [activation] (self_fibers self) of
                     (force, f) \<Rightarrow> (force, self\<lparr>self_pool := p, self_fibers := f\<rparr>)))
         \<and> (pool_step C [expanded, step_size] (self_pool self)
              = pool_step C [expanded, other_step_size] (self_pool self)
            \<longrightarrow> Muscle_step C motor_pool_input step_size self
                = Muscle_step C motor_pool_input other_step_size self)"
  using assms by (simp add: Muscle_step_unfold)

text \<open>
  With a pool that ignores the step size, stepping by \<^verbatim>\<open>0.02\<close> and stepping by
  \<^verbatim>\<open>7\<close> are the same, the fibres included.
\<close>

theorem Muscle_step_step_size_witness:
  "expand_input (spy_models\<lparr>pool_step := deaf_pool_step\<rparr>) (PyFloat 0.5) (spy_muscle 3)
     = (Inr (PyArray [PyFloat 0.5, PyFloat 0.5, PyFloat 0.5]), spy_muscle 3)
   \<and> pool_step (spy_models\<lparr>pool_step := deaf_pool_step\<rparr>)
        [PyArray [PyFloat 0.5, PyFloat 0.5, PyFloat 0.5], PyFloat 0.02] (self_pool (spy_muscle 3))
     = pool_step (spy_models\<lparr>pool_step := deaf_pool_step\<rparr>)
        [PyArray [PyFloat 0.5, PyFloat 0.5, PyFloat 0.5], PyFloat 7] (self_pool (spy_muscle 3))
   \<and> Muscle_step (spy_models\<lparr>pool_step := deaf_pool_step\<rparr>) (PyFloat 0.5) (PyFloat 0.02)
        (spy_muscle 3)
     = Muscle_step (spy_models\<lparr>pool_step := deaf_pool_step\<rparr>) (PyFloat 0.5) (PyFloat 7)
        (spy_muscle 3)
   \<and> Muscle_step (spy_models\<lparr>pool_step := deaf_pool_step\<rparr>) (PyFloat 0.5) (PyFloat 0.02)
        (spy_muscle 3)
     = (Inr (PyFloat 3),
        \<lparr>self_pool = new_spy_pool 3,
         self_fibers = (new_spy_fibers 3)\<lparr>sf_current_forces := PyFloat 3,
           sf_calls := [[PyArray [PyFloat 1, PyFloat 1, PyFloat 1]]]\<rparr>\<rparr>)"
proof -
  let ?C = "spy_models\<lparr>pool_step := deaf_pool_step\<rparr>"
  let ?x = "PyArray [PyFloat 0.5, PyFloat 0.5, PyFloat 0.5]"
  have a: "expand_input ?C (PyFloat 0.5) (spy_muscle 3) = (Inr ?x, spy_muscle 3)"
    by (simp add: expand_input_def np_full_def spy_defs replicate3)
  have b: "pool_step ?C [?x, PyFloat 0.02] (self_pool (spy_muscle 3))
             = pool_step ?C [?x, PyFloat 7] (self_pool (spy_muscle 3))"
    by (simp add: deaf_pool_step_def)
  note t = Muscle_step_step_size [OF a, of "PyFloat 0.02" "PyFloat 7"]
  note same = t [THEN conjunct2, THEN mp, OF b]
  have c: "(case pool_step ?C [?x, PyFloat 0.02] (self_pool (spy_muscle 3)) of
                (Inl e, p) \<Rightarrow> (Inl e, (spy_muscle 3)\<lparr>self_pool := p\<rparr>)
              | (Inr activation, p) \<Rightarrow>
                  (case fibers_step ?C [activation] (self_fibers (spy_muscle 3)) of
                     (force, f) \<Rightarrow> (force, (spy_muscle 3)\<lparr>self_pool := p, self_fibers := f\<rparr>)))
           = (Inr (PyFloat 3),
        \<lparr>self_pool = new_spy_pool 3,
         self_fibers = (new_spy_fibers 3)\<lparr>sf_current_forces := PyFloat 3,
           sf_calls := [[PyArray [PyFloat 1, PyFloat 1, PyFloat 1]]]\<rparr>\<rparr>)"
    by (simp add: deaf_pool_step_def spy_defs)
  show ?thesis
    using a b same t [THEN conjunct1] c by (simp only: simp_thms)
qed

text \<open>
  C3.  When the expansion of the input gives \<open>expanded\<close> (the array of copies for a float
  or an int, the input itself otherwise), the pool's \<^verbatim>\<open>step\<close> on \<open>expanded\<close> and the
  step size returns \<open>activation\<close>, and the fibres' \<^verbatim>\<open>step\<close> on \<open>activation\<close> gives
  \<open>force\<close>, then \<^verbatim>\<open>Muscle.step\<close> gives exactly \<open>force\<close>, and leaves the muscle with
  the two collaborators in the states those two calls left them in.
\<close>

theorem Muscle_step_sequencing:
  assumes "expand_input C motor_pool_input self = (Inr expanded, self)"
    and "pool_step C [expanded, step_size] (self_pool self) = (Inr activation, p)"
    and "fibers_step C [activation] (self_fibers self) = (force, f)"
  shows "Muscle_step C motor_pool_input step_size self
           = (force, self\<lparr>self_pool := p, self_fibers := f\<rparr>)
         \<and> expanded =
             (if isinstance_float motor_pool_input \<or> isinstance_int motor_pool_input
              then PyArray (replicate (nat (pool_motor_unit_count C (self_pool self)))
                      motor_pool_input)
              else motor_pool_input)"
proof
  show "Muscle_step C motor_pool_input step_size self
          = (force, self\<lparr>self_pool := p, self_fibers := f\<rparr>)"
    using assms by (simp add: Muscle_step_unfold)
  show "expanded =
          (if isinstance_float motor_pool_input \<or> isinstance_int motor_pool_input
           then PyArray (replicate (nat (pool_motor_unit_count C (self_pool self)))
                   motor_pool_input)
           else motor_pool_input)"
    using assms(1)
    by (auto simp: expand_input_def np_full_def return_py_def split: if_splits)
qed

theorem Muscle_step_sequencing_witness:
  "expand_input spy_models (PyFloat 0.5) (spy_muscle 3)
     = (Inr (PyArray [PyFloat 0.5, PyFloat 0.5, PyFloat 0.5]), spy_muscle 3)
   \<and> pool_step spy_models [PyArray [PyFloat 0.5, PyFloat 0.5, PyFloat 0.5], PyFloat 0.02]
        (self_pool (spy_muscle 3))
     = (Inr (PyArray [PyFloat 1, PyFloat 1, PyFloat 1]),
        (new_spy_pool 3)\<lparr>sp_calls :=
           [[PyArray [PyFloat 0.5, PyFloat 0.5, PyFloat 0.5], PyFloat 0.02]]\<rparr>)
   \<and> fibers_step spy_models [PyArray [PyFloat 1, PyFloat 1, PyFloat 1]]
        (self_fibers (spy_muscle 3))
     = (Inr (PyFloat 3),
        (new_spy_fibers 3)\<lparr>sf_current_forces := PyFloat 3,
           sf_calls := [[PyArray [PyFloat 1, PyFloat 1, PyFloat 1]]]\<rparr>)
   \<and> Muscle_step spy_models (PyFloat 0.5) (PyFloat 0.02) (spy_muscle 3)
     = (Inr (PyFloat 3),
        \<lparr>self_pool = (new_spy_pool 3)\<lparr>sp_calls :=
           [[PyArray [PyFloat 0.5, PyFloat 0.5, PyFloat 0.5], PyFloat 0.02]]\<rparr>,
         self_fibers = (new_spy_fibers 3)\<lparr>sf_current_forces := PyFloat 3,
           sf_calls := [[PyArray [PyFloat 1, PyFloat 1, PyFloat 1]]]\<rparr>\<rparr>)"
proof -
  have a: "expand_input spy_models (PyFloat 0.5) (spy_muscle 3)
             = (Inr (PyArray [PyFloat 0.5, PyFloat 0.5, PyFloat 0.5]), spy_muscle 3)"
    by (simp add: expand_input_def np_full_def spy_defs replicate3)
  have b: "pool_step spy_models [PyArray [PyFloat 0.5, PyFloat 0.5, PyFloat 0.5], PyFloat 0.02]
             (self_pool (spy_muscle 3))
           = (Inr (PyArray [PyFloat 1, PyFloat 1, PyFloat 1]),
              (new_spy_pool 3)\<lparr>sp_calls :=
                 [[PyArray [PyFloat 0.5, PyFloat 0.5, PyFloat 0.5], PyFloat 0.02]]\<rparr>)"
    by (simp add: spy_defs)
  have c: "fibers_step spy_models [PyArray [PyFloat 1, PyFloat 1, PyFloat 1]]
             (self_fibers (spy_muscle 3))
           = (Inr (PyFloat 3),
              (new_spy_fibers 3)\<lparr>sf_current_forces := PyFloat 3,
                 sf_calls := [[PyArray [PyFloat 1, PyFloat 1, PyFloat 1]]]\<rparr>)"
    by (simp add: spy_defs)
  show ?thesis
    using a b c Muscle_step_sequencing [OF a b c, THEN conjunct1]
    by (simp add: spy_muscle_def)
qed

text \<open>
  C4, as stated, fails for a single value that is neither a Python float nor a Python int:
  \<^verbatim>\<open>step(np.int64(1), 7)\<close> on a muscle of three units hands the bare value to the pool,
  while \<^verbatim>\<open>step\<close> of the array of three copies hands the array to the pool, and the two
  calls end differently.
\<close>

theorem Muscle_step_numpy_scalar_not_expanded:
  "sp_calls (self_pool (snd (Muscle_step spy_models (PyNpInt64 1) (PyFloat 7) (spy_muscle 3))))
     = [[PyNpInt64 1, PyFloat 7]]
   \<and> sp_calls (self_pool (snd (Muscle_step spy_models
        (PyArray [PyNpInt64 1, PyNpInt64 1, PyNpInt64 1]) (PyFloat 7) (spy_muscle 3))))
     = [[PyArray [PyNpInt64 1, PyNpInt64 1, PyNpInt64 1], PyFloat 7]]
   \<and> Muscle_step spy_models (PyNpInt64 1) (PyFloat 7) (spy_muscle 3)
     \<noteq> Muscle_step spy_models (PyArray [PyNpInt64 1, PyNpInt64 1, PyNpInt64 1]) (PyFloat 7)
         (spy_muscle 3)"
  by (simp add: Muscle_step_unfold expand_input_def return_py_def spy_defs)

text \<open>
  C4, amended.  For a Python float or int \<open>v\<close> and a muscle whose
  \<^verbatim>\<open>motor_unit_count\<close> is \<open>N\<close> (not negative), the input is expanded, before any
  collaborator is called and without touching the muscle, into the array of \<open>N\<close> copies of
  \<open>v\<close>; the pool's \<^verbatim>\<open>step\<close> receives exactly that array and the step size, the fibres'
  \<^verbatim>\<open>step\<close> receives what the pool returned; and \<^verbatim>\<open>step\<close> of the array of \<open>N\<close>
  copies is the same call: the same result (activation and force) and the same
  collaborator states afterwards.
\<close>

theorem Muscle_step_scalar_broadcast:
  assumes "isinstance_float v \<or> isinstance_int v"
    and "fst (Muscle_motor_unit_count C self) = Inr N"
    and "0 \<le> N"
  shows "expand_input C v self = (Inr (PyArray (replicate (nat N) v)), self)
         \<and> Muscle_step C v step_size self
           = (case pool_step C [PyArray (replicate (nat N) v), step_size] (self_pool self) of
                (Inl e, p) \<Rightarrow> (Inl e, self\<lparr>self_pool := p\<rparr>)
              | (Inr activation, p) \<Rightarrow>
                  (case fibers_step C [activation] (self_fibers self) of
                     (force, f) \<Rightarrow> (force, self\<lparr>self_pool := p, self_fibers := f\<rparr>)))
         \<and> Muscle_step C (PyArray (replicate (nat N) v)) step_size self
           = Muscle_step C v step_size self"
proof -
  have N: "pool_motor_unit_count C (self_pool self) = N"
    using assms(2) by (simp add: Muscle_motor_unit_count_def return_py_def)
  have scalar: "expand_input C v self = (Inr (PyArray (replicate (nat N) v)), self)"
    using expand_input_scalar [of v C self] assms(1,3) N by simp
  have array: "expand_input C (PyArray (replicate (nat N) v)) self
                 = (Inr (PyArray (replicate (nat N) v)), self)"
    by (simp add: expand_input_other)
  show ?thesis
    using scalar array by (simp add: Muscle_step_unfold)
qed

text \<open>
  On the recording collaborators, for \<^verbatim>\<open>0.5\<close> and three units: the pool has received
  the array of three copies, and both forms of the call give the force 3.
\<close>

theorem Muscle_step_scalar_broadcast_witness:
  "(isinstance_float (PyFloat 0.5) \<or> isinstance_int (PyFloat 0.5))
   \<and> fst (Muscle_motor_unit_count spy_models (spy_muscle 3)) = Inr 3
   \<and> (0::int) \<le> 3
   \<and> expand_input spy_models (PyFloat 0.5) (spy_muscle 3)
     = (Inr (PyArray [PyFloat 0.5, PyFloat 0.5, PyFloat 0.5]), spy_muscle 3)
   \<and> Muscle_step spy_models (PyFloat 0.5) (PyFloat 0.02) (spy_muscle 3)
     = (Inr (PyFloat 3),
        \<lparr>self_pool = (new_spy_pool 3)\<lparr>sp_calls :=
           [[PyArray [PyFloat 0.5, PyFloat 0.5, PyFloat 0.5], PyFloat 0.02]]\<rparr>,
         self_fibers = (new_spy_fibers 3)\<lparr>sf_current_forces := PyFloat 3,
           sf_calls := [[PyArray [PyFloat 1, PyFloat 1, PyFloat 1]]]\<rparr>\<rparr>)
   \<and> Muscle_step spy_models (PyArray [PyFloat 0.5, PyFloat 0.5, PyFloat 0.5]) (PyFloat 0.02)
         (spy_muscle 3)
     = Muscle_step spy_models (PyFloat 0.5) (PyFloat 0.02) (spy_muscle 3)"
proof -
  have a: "isinstance_float (PyFloat 0.5) \<or> isinstance_int (PyFloat 0.5)" by simp
  have b: "fst (Muscle_motor_unit_count spy_models (spy_muscle 3)) = Inr 3"
    by (simp add: Muscle_motor_unit_count_def return_py_def spy_defs)
  have c: "(0::int) \<le> 3" by simp
  note t = Muscle_step_scalar_broadcast [OF a b c, of "PyFloat 0.02"]
  have d: "(case pool_step spy_models
                  [PyArray (replicate (nat 3) (PyFloat 0.5)), PyFloat 0.02]
                  (self_pool (spy_muscle 3)) of
              (Inl e, p) \<Rightarrow> (Inl e, (spy_muscle 3)\<lparr>self_pool := p\<rparr>)
            | (Inr activation, p) \<Rightarrow>
                (case fibers_step spy_models [activation] (self_fibers (spy_muscle 3)) of
                   (force, f) \<Rightarrow> (force, (spy_muscle 3)\<lparr>self_pool := p, self_fibers := f\<rparr>)))
           = (Inr (PyFloat 3),
              \<lparr>self_pool = (new_spy_pool 3)\<lparr>sp_calls :=
                 [[PyArray [PyFloat 0.5, PyFloat 0.5, PyFloat 0.5], PyFloat 0.02]]\<rparr>,
               self_fibers = (new_spy_fibers 3)\<lparr>sf_current_forces := PyFloat 3,
                 sf_calls := [[PyArray [PyFloat 1, PyFloat 1, PyFloat 1]]]\<rparr>\<rparr>)"
    by (simp add: spy_defs replicate3)
  show ?thesis
    using a b c t d by (simp add: replicate3)
qed


text \<open>
  C8.  An exception of the pool's \<^verbatim>\<open>step\<close> is the exception of \<^verbatim>\<open>Muscle.step\<close>,
  the fibres are not called, and the pool is left as its one call left it.  An exception
  of the fibres' \<^verbatim>\<open>step\<close> is the exception of \<^verbatim>\<open>Muscle.step\<close> in the same way.
  An array is never changed by the expansion, whatever its length: the pool receives it
  as the caller gave it.
\<close>

theorem Muscle_step_propagates:
  "(expand_input C motor_pool_input self = (Inr expanded, self)
      \<and> pool_step C [expanded, step_size] (self_pool self) = (Inl e, p)
     \<longrightarrow> Muscle_step C motor_pool_input step_size self = (Inl e, self\<lparr>self_pool := p\<rparr>))
   \<and> (expand_input C motor_pool_input self = (Inr expanded, self)
      \<and> pool_step C [expanded, step_size] (self_pool self) = (Inr activation, p)
      \<and> fibers_step C [activation] (self_fibers self) = (Inl e, f)
     \<longrightarrow> Muscle_step C motor_pool_input step_size self
          = (Inl e, self\<lparr>self_pool := p, self_fibers := f\<rparr>))
   \<and> expand_input C (PyArray xs) self = (Inr (PyArray xs), self)"
  by (simp add: Muscle_step_unfold expand_input_other)

text \<open>
  On the recording collaborators: an array of two values against a pool of three units
  makes the pool raise, and an array of two values against a pool of two units and
  fibres of three makes the fibres raise; both exceptions come out of \<^verbatim>\<open>Muscle.step\<close>
  as raised, after one call of each collaborator reached.
\<close>

theorem Muscle_step_propagates_witness:
  "expand_input spy_models (PyArray [PyFloat 1, PyFloat 2]) (spy_muscle 3)
     = (Inr (PyArray [PyFloat 1, PyFloat 2]), spy_muscle 3)
   \<and> pool_step spy_models [PyArray [PyFloat 1, PyFloat 2], PyFloat 0.02]
        (self_pool (spy_muscle 3))
     = (Inl (Raised ''shape mismatch''),
        (new_spy_pool 3)\<lparr>sp_calls := [[PyArray [PyFloat 1, PyFloat 2], PyFloat 0.02]]\<rparr>)
   \<and> Muscle_step spy_models (PyArray [PyFloat 1, PyFloat 2]) (PyFloat 0.02) (spy_muscle 3)
     = (Inl (Raised ''shape mismatch''),
        \<lparr>self_pool =
           (new_spy_pool 3)\<lparr>sp_calls := [[PyArray [PyFloat 1, PyFloat 2], PyFloat 0.02]]\<rparr>,
         self_fibers = new_spy_fibers 3\<rparr>)
   \<and> pool_step spy_models [PyArray [PyFloat 1, PyFloat 2], PyFloat 0.02]
        (self_pool \<lparr>self_pool = new_spy_pool 2, self_fibers = new_spy_fibers 3\<rparr>)
     = (Inr (PyArray [PyFloat 2, PyFloat 4]),
        (new_spy_pool 2)\<lparr>sp_calls := [[PyArray [PyFloat 1, PyFloat 2], PyFloat 0.02]]\<rparr>)
   \<and> fibers_step spy_models [PyArray [PyFloat 2, PyFloat 4]]
        (self_fibers \<lparr>self_pool = new_spy_pool 2, self_fibers = new_spy_fibers 3\<rparr>)
     = (Inl (Raised ''shape mismatch''),
        (new_spy_fibers 3)\<lparr>sf_calls := [[PyArray [PyFloat 2, PyFloat 4]]]\<rparr>)
   \<and> Muscle_step spy_models (PyArray [PyFloat 1, PyFloat 2]) (PyFloat 0.02)
        \<lparr>self_pool = new_spy_pool 2, self_fibers = new_spy_fibers 3\<rparr>
     = (Inl (Raised ''shape mismatch''),
        \<lparr>self_pool =
           (new_spy_pool 2)\<lparr>sp_calls := [[PyArray [PyFloat 1, PyFloat 2], PyFloat 0.02]]\<rparr>,
         self_fibers =
           (new_spy_fibers 3)\<lparr>sf_calls := [[PyArray [PyFloat 2, PyFloat 4]]]\<rparr>\<rparr>)"
proof -
  let ?xs = "[PyFloat 1, PyFloat 2]"
  let ?m = "\<lparr>self_pool = new_spy_pool 2, self_fibers = new_spy_fibers 3\<rparr>"
  have a: "expand_input spy_models (PyArray ?xs) (spy_muscle 3)
             = (Inr (PyArray ?xs), spy_muscle 3)"
    by (simp add: expand_input_other)
  have b: "pool_step spy_models [PyArray ?xs, PyFloat 0.02] (self_pool (spy_muscle 3))
     = (Inl (Raised ''shape mismatch''),
        (new_spy_pool 3)\<lparr>sp_calls := [[PyArray ?xs, PyFloat 0.02]]\<rparr>)"
    by (simp add: spy_defs)
  have a': "expand_input spy_models (PyArray ?xs) ?m = (Inr (PyArray ?xs), ?m)"
    by (simp add: expand_input_other)
  have c: "pool_step spy_models [PyArray ?xs, PyFloat 0.02] (self_pool ?m)
     = (Inr (PyArray [PyFloat 2, PyFloat 4]),
        (new_spy_pool 2)\<lparr>sp_calls := [[PyArray ?xs, PyFloat 0.02]]\<rparr>)"
    by (simp add: spy_defs)
  have d: "fibers_step spy_models [PyArray [PyFloat 2, PyFloat 4]] (self_fibers ?m)
     = (Inl (Raised ''shape mismatch''),
        (new_spy_fibers 3)\<lparr>sf_calls := [[PyArray [PyFloat 2, PyFloat 4]]]\<rparr>)"
    by (simp add: spy_defs)
  note pool_fails = Muscle_step_propagates [THEN conjunct1, THEN mp, OF conjI, OF a b]
  note fibers_fail =
    Muscle_step_propagates [THEN conjunct2, THEN conjunct1, THEN mp, OF conjI, OF a' conjI, OF c d]
  show ?thesis
    using a b c d pool_fails fibers_fail
    by (simp add: spy_muscle_def)
qed


section \<open>The accessors over a muscle's lifetime\<close>

text \<open>
  C6, as stated, fails: a muscle built from a pool and fibres that both report zero motor
  units is accepted, and its \<^verbatim>\<open>motor_unit_count\<close> is 0, which is not positive.
\<close>

theorem Muscle_motor_unit_count_not_positive:
  "Muscle_init spy_models (new_spy_pool 0) (new_spy_fibers 0) = Inr (spy_muscle 0)
   \<and> Muscle_motor_unit_count spy_models (spy_muscle 0) = (Inr 0, spy_muscle 0)"
  by (simp add: Muscle_init_def Muscle_motor_unit_count_def return_py_def spy_defs)

text \<open>
  C6, amended.  For collaborators whose own counts are stable, after any sequence of
  calls on a constructed muscle the accessor \<^verbatim>\<open>motor_unit_count\<close> returns the count
  the pool had at construction, without changing the muscle, and the fibres' count
  equals it.  The count is an integer that nothing checks for being positive.
\<close>

theorem Muscle_motor_unit_count_fixed:
  assumes "counts_stable C"
    and "Muscle_init C p f = Inr self"
  shows "Muscle_motor_unit_count C (perform_all C calls self)
           = (Inr (pool_motor_unit_count C p), perform_all C calls self)
         \<and> fibers_motor_unit_count C (self_fibers (perform_all C calls self))
           = pool_motor_unit_count C p"
proof -
  from assms(2) have eq: "pool_motor_unit_count C p = fibers_motor_unit_count C f"
    and self: "self = \<lparr>self_pool = p, self_fibers = f\<rparr>"
    by (auto simp: Muscle_init_def split: if_splits)
  show ?thesis
    using perform_all_counts [OF assms(1), of calls self] eq self
    by (simp add: Muscle_motor_unit_count_def return_py_def)
qed

theorem Muscle_motor_unit_count_fixed_witness:
  "counts_stable spy_models
   \<and> Muscle_init spy_models (new_spy_pool 3) (new_spy_fibers 3) = Inr (spy_muscle 3)
   \<and> Muscle_motor_unit_count spy_models
        (perform_all spy_models
           [Step (PyFloat 0.5) (PyFloat 0.02), CurrentForces, Step (PyArray []) (PyFloat 0.02)]
           (spy_muscle 3))
     = (Inr 3,
        perform_all spy_models
           [Step (PyFloat 0.5) (PyFloat 0.02), CurrentForces, Step (PyArray []) (PyFloat 0.02)]
           (spy_muscle 3))
   \<and> fibers_motor_unit_count spy_models
        (self_fibers (perform_all spy_models
           [Step (PyFloat 0.5) (PyFloat 0.02), CurrentForces, Step (PyArray []) (PyFloat 0.02)]
           (spy_muscle 3)))
     = 3"
proof -
  have b: "Muscle_init spy_models (new_spy_pool 3) (new_spy_fibers 3) = Inr (spy_muscle 3)"
    by (simp add: Muscle_init_def spy_defs)
  have c: "pool_motor_unit_count spy_models (new_spy_pool 3) = 3"
    by (simp add: spy_defs)
  show ?thesis
    using spy_counts_stable b
      Muscle_motor_unit_count_fixed [OF spy_counts_stable b,
        of "[Step (PyFloat 0.5) (PyFloat 0.02), CurrentForces, Step (PyArray []) (PyFloat 0.02)]"]
    by (simp only: c simp_thms)
qed

text \<open>
  C7.  For fibres that keep the force they return as \<^verbatim>\<open>current_forces\<close>, after a
  \<^verbatim>\<open>step\<close> that returned \<open>force\<close> the accessor \<^verbatim>\<open>current_forces\<close> returns \<open>force\<close>
  and leaves the muscle, both collaborators included, as the step left it.  Reading the
  accessor never changes the muscle it is read from.
\<close>

theorem Muscle_current_forces_after_step:
  assumes "fibers_cache_forces C"
    and "Muscle_step C motor_pool_input step_size self = (Inr force, self')"
  shows "Muscle_current_forces C self' = (Inr force, self')
         \<and> snd (Muscle_current_forces C any) = any"
  using assms
  by (auto simp: Muscle_step_unfold Muscle_current_forces_def return_py_def
      fibers_cache_forces_def split: prod.splits sum.splits)

theorem Muscle_current_forces_after_step_witness:
  "fibers_cache_forces spy_models
   \<and> Muscle_step spy_models (PyFloat 0.5) (PyFloat 0.02) (spy_muscle 3)
     = (Inr (PyFloat 3),
        \<lparr>self_pool = (new_spy_pool 3)\<lparr>sp_calls :=
           [[PyArray [PyFloat 0.5, PyFloat 0.5, PyFloat 0.5], PyFloat 0.02]]\<rparr>,
         self_fibers = (new_spy_fibers 3)\<lparr>sf_current_forces := PyFloat 3,
           sf_calls := [[PyArray [PyFloat 1, PyFloat 1, PyFloat 1]]]\<rparr>\<rparr>)
   \<and> Muscle_current_forces spy_models
        \<lparr>self_pool = (new_spy_pool 3)\<lparr>sp_calls :=
           [[PyArray [PyFloat 0.5, PyFloat 0.5, PyFloat 0.5], PyFloat 0.02]]\<rparr>,
         self_fibers = (new_spy_fibers 3)\<lparr>sf_current_forces := PyFloat 3,
           sf_calls := [[PyArray [PyFloat 1, PyFloat 1, PyFloat 1]]]\<rparr>\<rparr>
     = (Inr (PyFloat 3),
        \<lparr>self_pool = (new_spy_pool 3)\<lparr>sp_calls :=
           [[PyArray [PyFloat 0.5, PyFloat 0.5, PyFloat 0.5], PyFloat 0.02]]\<rparr>,
         self_fibers = (new_spy_fibers 3)\<lparr>sf_current_forces := PyFloat 3,
           sf_calls := [[PyArray [PyFloat 1, PyFloat 1, PyFloat 1]]]\<rparr>\<rparr>)"
proof -
  have b: "Muscle_step spy_models (PyFloat 0.5) (PyFloat 0.02) (spy_muscle 3)
     = (Inr (PyFloat 3),
        \<lparr>self_pool = (new_spy_pool 3)\<lparr>sp_calls :=
           [[PyArray [PyFloat 0.5, PyFloat 0.5, PyFloat 0.5], PyFloat 0.02]]\<rparr>,
         self_fibers = (new_spy_fibers 3)\<lparr>sf_current_forces := PyFloat 3,
           sf_calls := [[PyArray [PyFloat 1, PyFloat 1, PyFloat 1]]]\<rparr>\<rparr>)"
    by (simp add: Muscle_step_unfold expand_input_def np_full_def spy_defs replicate3)
  show ?thesis
    using spy_fibers_cache_forces b
      Muscle_current_forces_after_step [OF spy_fibers_cache_forces b, THEN conjunct1]
    by (simp only: simp_thms)
qed

text \<open>
  The promise of the fibres is needed: with fibres whose \<^verbatim>\<open>current_forces\<close> stays
  \<^verbatim>\<open>None\<close>, the step returns 3 and the accessor \<^verbatim>\<open>None\<close>.
\<close>

lemma Muscle_current_forces_without_cache:
  "fst (Muscle_step (spy_models\<lparr>fibers_current_forces := \<lambda>s. PyNone\<rparr>) (PyFloat 0.5)
          (PyFloat 0.02) (spy_muscle 3)) = Inr (PyFloat 3)
   \<and> fst (Muscle_current_forces (spy_models\<lparr>fibers_current_forces := \<lambda>s. PyNone\<rparr>)
          (snd (Muscle_step (spy_models\<lparr>fibers_current_forces := \<lambda>s. PyNone\<rparr>) (PyFloat 0.5)
             (PyFloat 0.02) (spy_muscle 3)))) = Inr PyNone"
  by (simp add: Muscle_step_unfold Muscle_current_forces_def return_py_def expand_input_def
      np_full_def spy_defs replicate3)


section \<open>The force-oriented preset\<close>

text \<open>
  C5.  For a \<^verbatim>\<open>max_force\<close> that is not negative and a positive
  \<^verbatim>\<open>force_conversion_factor\<close> (the spec's configuration has both positive), the derived
  count is the floor of \<^verbatim>\<open>max_force / (force_conversion_factor * 17.66)\<close>: the quotient
  is cut, not rounded.
\<close>

theorem StandardMuscle_motor_unit_count_floor:
  assumes "0 \<le> max_force" and "0 < force_conversion_factor"
  shows "StandardMuscle_motor_unit_count max_force force_conversion_factor
           = Inr \<lfloor>max_force / (force_conversion_factor * 17.66)\<rfloor>"
proof -
  have "0 \<le> max_force / (force_conversion_factor * 17.66)"
    using assms by simp
  then show ?thesis
    using assms(2)
    by (simp add: StandardMuscle_motor_unit_count_def py_truediv_def bind_exn_def py_int_nonneg)
qed

text \<open>For 500 and 0.028 the quotient is about 1011.16, so the count is 1011.\<close>

theorem StandardMuscle_motor_unit_count_floor_witness:
  "(0::real) \<le> 500 \<and> (0::real) < 0.028
   \<and> StandardMuscle_motor_unit_count 500 0.028 = Inr \<lfloor>500 / (0.028 * 17.66 :: real)\<rfloor>
   \<and> \<lfloor>500 / (0.028 * 17.66 :: real)\<rfloor> = 1011"
proof -
  have a: "(0::real) \<le> 500" and b: "(0::real) < 0.028" by simp_all
  show ?thesis
    using a b StandardMuscle_motor_unit_count_floor [OF a b] floor_500 by simp
qed


text \<open>
  C9.  Leaving out both fatigue flags is the same as passing \<^verbatim>\<open>False\<close> for the central
  and \<^verbatim>\<open>True\<close> for the peripheral one: the pool is constructed with
  \<^verbatim>\<open>apply_fatigue=False\<close> and the fibres with \<^verbatim>\<open>apply_fatigue=True\<close>.
\<close>

theorem StandardMuscle_default_flags:
  "StandardMuscle_init K C max_force force_conversion_factor None None pre_calc_firing_rates
     = StandardMuscle_init K C max_force force_conversion_factor (Some False) (Some True)
         pre_calc_firing_rates
   \<and> StandardMuscle_init K C max_force force_conversion_factor None None pre_calc_firing_rates
     = bind_exn
         (StandardMuscle_motor_unit_count (arg_default 60.0 max_force)
            (arg_default 0.028 force_conversion_factor))
         (\<lambda>n. bind_exn
            (PotvinFuglevand2017MotorNeuronPool K
               \<lparr>kw_motor_unit_count = n, kw_apply_fatigue = False,
                kw_pre_calc_firing_rates = arg_default False pre_calc_firing_rates\<rparr>)
            (\<lambda>pool. bind_exn
               (PyMuscleFibers K
                  \<lparr>kw_motor_unit_count = n, kw_apply_fatigue = True,
                   kw_force_conversion_factor = arg_default 0.028 force_conversion_factor\<rparr>)
               (\<lambda>fibers. bind_exn (Muscle_init C pool fibers)
                  (\<lambda>self. Inr (muscle.extend self
                     (standard_muscle.fields (arg_default 60.0 max_force)
                        (arg_default 0.028 force_conversion_factor)))))))"
  by (simp add: StandardMuscle_init_def arg_default_def Let_def)

text \<open>
  With recording constructors and every argument left out: 121 motor units, a pool
  without fatigue and fibres with fatigue.
\<close>

theorem StandardMuscle_default_flags_witness:
  "StandardMuscle_init spy_constructors spy_models None None None None None
     = Inr \<lparr>self_pool = \<lparr>sp_motor_unit_count = 121, sp_apply_fatigue = False,
                sp_pre_calc_firing_rates = False, sp_calls = []\<rparr>,
            self_fibers = \<lparr>sf_motor_unit_count = 121, sf_apply_fatigue = True,
                sf_current_forces = PyNone, sf_calls = []\<rparr>,
            self_max_force = 60, self_force_conversion_factor = 0.028\<rparr>"
  using StandardMuscle_default_flags [of spy_constructors spy_models None None None,
      THEN conjunct2] count_60
  by (simp add: arg_default_def bind_exn_def spy_defs Muscle_init_def muscle.extend_def
      standard_muscle.fields_def)

text \<open>
  C10.  For every positive \<^verbatim>\<open>max_force\<close> below \<^verbatim>\<open>force_conversion_factor * 17.66\<close>
  the derived count is 0, and this 0 is what both constructors are called with: nothing
  between the derivation and the constructor calls checks it.
\<close>

theorem StandardMuscle_zero_motor_units:
  assumes "0 < max_force" and "max_force < force_conversion_factor * 17.66"
  shows "0 < force_conversion_factor
         \<and> StandardMuscle_motor_unit_count max_force force_conversion_factor = Inr 0
         \<and> StandardMuscle_init K C (Some max_force) (Some force_conversion_factor)
             apply_central_fatigue apply_peripheral_fatigue pre_calc_firing_rates
           = bind_exn
               (PotvinFuglevand2017MotorNeuronPool K
                  \<lparr>kw_motor_unit_count = 0,
                   kw_apply_fatigue = arg_default False apply_central_fatigue,
                   kw_pre_calc_firing_rates = arg_default False pre_calc_firing_rates\<rparr>)
               (\<lambda>pool. bind_exn
                  (PyMuscleFibers K
                     \<lparr>kw_motor_unit_count = 0,
                      kw_apply_fatigue = arg_default True apply_peripheral_fatigue,
                      kw_force_conversion_factor = force_conversion_factor\<rparr>)
                  (\<lambda>fibers. bind_exn (Muscle_init C pool fibers)
                     (\<lambda>self. Inr (muscle.extend self
                        (standard_muscle.fields max_force force_conversion_factor)))))"
proof -
  have pos: "0 < force_conversion_factor * 17.66" using assms by simp
  then have fcf: "0 < force_conversion_factor" by (simp add: zero_less_mult_iff)
  have "0 \<le> max_force / (force_conversion_factor * 17.66)"
    and "max_force / (force_conversion_factor * 17.66) < 1"
    using assms pos by simp_all
  then have "py_int (max_force / (force_conversion_factor * 17.66)) = 0"
    by (simp add: py_int_nonneg floor_eq_iff)
  then have count: "StandardMuscle_motor_unit_count max_force force_conversion_factor = Inr 0"
    using fcf by (simp add: StandardMuscle_motor_unit_count_def py_truediv_def bind_exn_def)
  show ?thesis
    using fcf count
    by (simp add: StandardMuscle_init_def arg_default_def bind_exn_def Let_def)
qed

text \<open>For 0.4 and 0.028, with recording constructors, the muscle has zero motor units.\<close>

theorem StandardMuscle_zero_motor_units_witness:
  "(0::real) < 0.4 \<and> (0.4::real) < 0.028 * 17.66
   \<and> StandardMuscle_motor_unit_count 0.4 0.028 = Inr 0
   \<and> StandardMuscle_init spy_constructors spy_models (Some 0.4) (Some 0.028) None None None
     = Inr \<lparr>self_pool = \<lparr>sp_motor_unit_count = 0, sp_apply_fatigue = False,
                sp_pre_calc_firing_rates = False, sp_calls = []\<rparr>,
            self_fibers = \<lparr>sf_motor_unit_count = 0, sf_apply_fatigue = True,
                sf_current_forces = PyNone, sf_calls = []\<rparr>,
            self_max_force = 0.4, self_force_conversion_factor = 0.028\<rparr>"
proof -
  have a: "(0::real) < 0.4" and b: "(0.4::real) < 0.028 * 17.66" by simp_all
  note z = StandardMuscle_zero_motor_units [OF a b, of spy_constructors spy_models None None None]
  show ?thesis
    using a b z
    by (simp add: arg_default_def bind_exn_def spy_defs Muscle_init_def muscle.extend_def
        standard_muscle.fields_def)
qed

end
